theory Spec2Isabelle
  imports Main "HOL-Library.Char_ord" "HOL-Library.List_Lexorder"
begin

section \<open>Python exceptions\<close>

text \<open>
  Every exception the modelled code can raise is a value of type \<open>error\<close>; a function
  that can raise returns \<open>error + 'a\<close>, with \<open>Inl\<close> for the exception.
  The constructors named after Python exceptions are raised by the modelled code itself.
  Abstract methods and imported helpers (which are not part of the modelled files) are
  parameters; they return \<open>exn + 'a\<close>, and an exception \<open>x\<close> that propagates out of
  one of them is \<open>Raised x\<close>. No modelled function catches an exception.
\<close>

type_synonym exn = string

datatype error =
    KeyError string
  | IndexError
  | ValueError string
  | AssertionError
  | UnboundLocalError
  | AttributeError
  | TypeError
  | Raised exn

definition bind :: "error + 'a \<Rightarrow> ('a \<Rightarrow> error + 'b) \<Rightarrow> error + 'b" where
  "bind m f = (case m of Inl e \<Rightarrow> Inl e | Inr x \<Rightarrow> f x)"

definition call :: "exn + 'a \<Rightarrow> error + 'a" where
  "call r = (case r of Inl x \<Rightarrow> Inl (Raised x) | Inr y \<Rightarrow> Inr y)"

definition getitem :: "(string \<rightharpoonup> 'v) \<Rightarrow> string \<Rightarrow> error + 'v" where
  "getitem d k = (case d k of None \<Rightarrow> Inl (KeyError k) | Some v \<Rightarrow> Inr v)"

section \<open>The inferencer (deploy/inferencers/base\_inferencer.py)\<close>







text \<open>
  \<open>Inferencer._normalize\<close> (lines 122--156). \<open>normalize_min_max\<close>
  (anomalib.utils.normalization.min\_max.normalize) and Python's \<open>float\<close> are
  parameters. Python evaluates the arguments of a call from left to right, so the
  threshold is looked up before \<open>min\<close> and \<open>max\<close>.
\<close>

definition call_normalize_min_max ::
  "('v \<Rightarrow> 'v \<Rightarrow> 'v \<Rightarrow> 'v \<Rightarrow> exn + 'v) \<Rightarrow> 'v \<Rightarrow> (string \<rightharpoonup> 'v) \<Rightarrow> string \<Rightarrow> error + 'v" where
  "call_normalize_min_max normalize_min_max targets metadata threshold_key =
     bind (getitem metadata threshold_key) (\<lambda>threshold.
     bind (getitem metadata ''min'') (\<lambda>min_val.
     bind (getitem metadata ''max'') (\<lambda>max_val.
       call (normalize_min_max targets threshold min_val max_val))))"

definition normalize ::
  "('v \<Rightarrow> 'v \<Rightarrow> 'v \<Rightarrow> 'v \<Rightarrow> exn + 'v) \<Rightarrow> ('v \<Rightarrow> exn + 'f) \<Rightarrow>
   'v \<Rightarrow> (string \<rightharpoonup> 'v) \<Rightarrow> 'v option \<Rightarrow> error + ('v option \<times> 'f)" where
  "normalize normalize_min_max float pred_scores metadata anomaly_maps =
     (if ''min'' \<in> dom metadata \<and> ''max'' \<in> dom metadata then
        bind (case anomaly_maps of
                None \<Rightarrow> Inr None
              | Some am \<Rightarrow>
                  bind (call_normalize_min_max normalize_min_max am metadata ''pixel_threshold'')
                       (\<lambda>am'. Inr (Some am'))) (\<lambda>anomaly_maps'.
        bind (call_normalize_min_max normalize_min_max pred_scores metadata ''image_threshold'')
             (\<lambda>pred_scores'.
        bind (call (float pred_scores')) (\<lambda>score.
          Inr (anomaly_maps', score))))
      else
        bind (call (float pred_scores)) (\<lambda>score. Inr (anomaly_maps, score)))"

subsection \<open>A concrete inferencer\<close>


definition example_normalize_min_max :: "nat \<Rightarrow> nat \<Rightarrow> nat \<Rightarrow> nat \<Rightarrow> exn + nat" where
  "example_normalize_min_max targets threshold min_val max_val =
     (if max_val = min_val then Inl ''ZeroDivisionError''
      else Inr ((targets - threshold) div (max_val - min_val)))"

definition example_metadata :: "string \<rightharpoonup> nat" where
  "example_metadata =
     map_of [(''min'', 0), (''max'', 2), (''image_threshold'', 5), (''pixel_threshold'', 3)]"

section \<open>The data module (data/base/datamodule.py)\<close>

text \<open>
  The enums \<open>TestSplitMode\<close> and \<open>ValSplitMode\<close> with the members the module
  names. The last constructor of each stands for any other value the attribute may hold.
\<close>

datatype TestSplitMode =
    TestSplitMode_NONE
  | TestSplitMode_FROM_DIR
  | TestSplitMode_SYNTHETIC
  | TestSplitMode_other string

datatype ValSplitMode =
    ValSplitMode_NONE
  | ValSplitMode_SAME_AS_TEST
  | ValSplitMode_FROM_TEST
  | ValSplitMode_SYNTHETIC
  | ValSplitMode_other string

text \<open>
  The attributes of \<open>AnomalibDataModule\<close>. Type \<open>'d\<close> is the dataset
  (\<open>AnomalibDataset\<close>), \<open>'r\<close> the split ratio. The three data attributes are only
  annotated by \<open>__init__\<close>: \<open>None\<close> is an attribute that has not been assigned.
\<close>

record ('d, 'r) AnomalibDataModule =
  train_batch_size :: int
  eval_batch_size :: int
  num_workers :: int
  test_split_mode :: TestSplitMode
  test_split_ratio :: "'r option"
  val_split_mode :: ValSplitMode
  val_split_ratio :: 'r
  seed :: "int option"
  train_data :: "'d option"
  val_data :: "'d option"
  test_data :: "'d option"

text \<open>
  What the module calls on datasets: the property \<open>is_setup\<close>, \<open>setup()\<close>, the
  property \<open>has_normal\<close>, \<open>split_by_label\<close>, \<open>random_split\<close> (dataset, ratio,
  \<open>label_aware\<close>, seed), \<open>SyntheticAnomalyDataset.from_dataset\<close> and \<open>+\<close>.
  None of them is defined in the module, so they are parameters. Those that do work take
  and return the ambient state \<open>'w\<close> of the process (the global random generator, the
  file system): a call may read it and change it.
\<close>

record ('d, 'r, 'w) dataset_ops =
  dataset_is_setup :: "'d \<Rightarrow> bool"
  dataset_setup :: "'d \<Rightarrow> 'w \<Rightarrow> (exn + 'd) \<times> 'w"
  has_normal :: "'d \<Rightarrow> bool"
  split_by_label :: "'d \<Rightarrow> 'w \<Rightarrow> (exn + 'd \<times> 'd) \<times> 'w"
  random_split :: "'d \<Rightarrow> 'r \<Rightarrow> bool \<Rightarrow> int option \<Rightarrow> 'w \<Rightarrow> (exn + 'd \<times> 'd) \<times> 'w"
  from_dataset :: "'d \<Rightarrow> 'w \<Rightarrow> (exn + 'd) \<times> 'w"
  dataset_add :: "'d \<Rightarrow> 'd \<Rightarrow> 'w \<Rightarrow> (exn + 'd) \<times> 'w"

text \<open>
  A method of the module returns the exception it raised (\<open>None\<close> when it returned),
  the module as the call left it (assignments made before a raise stay), and the ambient
  state.

  \<open>_create_test_split\<close>, first statement (lines 129--140): it binds the local
  \<open>normal_test_data\<close>, the second component of the result, or leaves it unbound.
\<close>

definition normal_test_data_of ::
  "('d, 'r, 'w) dataset_ops \<Rightarrow> ('d, 'r) AnomalibDataModule \<Rightarrow> 'w \<Rightarrow>
   error option \<times> 'd option \<times> ('d, 'r) AnomalibDataModule \<times> 'w" where
  "normal_test_data_of ops self w =
     (case test_data self of
        None \<Rightarrow> (Some AttributeError, None, self, w)
      | Some td \<Rightarrow>
          if has_normal ops td then
            (case split_by_label ops td w of
               (Inl x, w') \<Rightarrow> (Some (Raised x), None, self, w')
             | (Inr (normal_test_data, anomalous), w') \<Rightarrow>
                 (None, Some normal_test_data, self\<lparr>test_data := Some anomalous\<rparr>, w'))
          else if test_split_mode self \<noteq> TestSplitMode_NONE then
            (case test_split_ratio self of
               None \<Rightarrow> (None, None, self, w)
             | Some ratio \<Rightarrow>
                 (case train_data self of
                    None \<Rightarrow> (Some AttributeError, None, self, w)
                  | Some tr \<Rightarrow>
                      (case random_split ops tr ratio False (seed self) w of
                         (Inl x, w') \<Rightarrow> (Some (Raised x), None, self, w')
                       | (Inr (tr', normal_test_data), w') \<Rightarrow>
                           (None, Some normal_test_data, self\<lparr>train_data := Some tr'\<rparr>, w'))))
          else (None, None, self, w))"

text \<open>Second statement (lines 142--148), given the local \<open>normal_test_data\<close>.\<close>

definition test_data_of ::
  "('d, 'r, 'w) dataset_ops \<Rightarrow> 'd option \<Rightarrow> ('d, 'r) AnomalibDataModule \<Rightarrow> 'w \<Rightarrow>
   error option \<times> ('d, 'r) AnomalibDataModule \<times> 'w" where
  "test_data_of ops normal_test_data self w =
     (if test_split_mode self = TestSplitMode_FROM_DIR then
        (case test_data self of
           None \<Rightarrow> (Some AttributeError, self, w)
         | Some td \<Rightarrow>
             (case normal_test_data of
                None \<Rightarrow> (Some UnboundLocalError, self, w)
              | Some n \<Rightarrow>
                  (case dataset_add ops td n w of
                     (Inl x, w') \<Rightarrow> (Some (Raised x), self, w')
                   | (Inr td', w') \<Rightarrow> (None, self\<lparr>test_data := Some td'\<rparr>, w'))))
      else if test_split_mode self = TestSplitMode_SYNTHETIC then
        (case normal_test_data of
           None \<Rightarrow> (Some UnboundLocalError, self, w)
         | Some n \<Rightarrow>
             (case from_dataset ops n w of
                (Inl x, w') \<Rightarrow> (Some (Raised x), self, w')
              | (Inr td', w') \<Rightarrow> (None, self\<lparr>test_data := Some td'\<rparr>, w')))
      else if test_split_mode self \<noteq> TestSplitMode_NONE then
        (Some (ValueError ''Unsupported Test Split Mode''), self, w)
      else (None, self, w))"

definition create_test_split ::
  "('d, 'r, 'w) dataset_ops \<Rightarrow> ('d, 'r) AnomalibDataModule \<Rightarrow> 'w \<Rightarrow>
   error option \<times> ('d, 'r) AnomalibDataModule \<times> 'w" where
  "create_test_split ops self w =
     (case normal_test_data_of ops self w of
        (Some e, _, self', w') \<Rightarrow> (Some e, self', w')
      | (None, normal_test_data, self', w') \<Rightarrow> test_data_of ops normal_test_data self' w')"

text \<open>\<open>_create_val_split\<close> (lines 150--169).\<close>

definition create_val_split ::
  "('d, 'r, 'w) dataset_ops \<Rightarrow> ('d, 'r) AnomalibDataModule \<Rightarrow> 'w \<Rightarrow>
   error option \<times> ('d, 'r) AnomalibDataModule \<times> 'w" where
  "create_val_split ops self w =
     (if val_split_mode self = ValSplitMode_FROM_TEST then
        (case test_data self of
           None \<Rightarrow> (Some AttributeError, self, w)
         | Some td \<Rightarrow>
             (case random_split ops td (val_split_ratio self) True (seed self) w of
                (Inl x, w') \<Rightarrow> (Some (Raised x), self, w')
              | (Inr (td', vd), w') \<Rightarrow>
                  (None, self\<lparr>test_data := Some td', val_data := Some vd\<rparr>, w')))
      else if val_split_mode self = ValSplitMode_SAME_AS_TEST then
        (case test_data self of
           None \<Rightarrow> (Some AttributeError, self, w)
         | Some td \<Rightarrow> (None, self\<lparr>val_data := Some td\<rparr>, w))
      else if val_split_mode self = ValSplitMode_SYNTHETIC then
        (case train_data self of
           None \<Rightarrow> (Some AttributeError, self, w)
         | Some tr \<Rightarrow>
             (case random_split ops tr (val_split_ratio self) False (seed self) w of
                (Inl x, w') \<Rightarrow> (Some (Raised x), self, w')
              | (Inr (tr', normal_val_data), w') \<Rightarrow>
                  (case from_dataset ops normal_val_data w' of
                     (Inl x, w'') \<Rightarrow> (Some (Raised x), self\<lparr>train_data := Some tr'\<rparr>, w'')
                   | (Inr vd, w'') \<Rightarrow>
                       (None, self\<lparr>train_data := Some tr', val_data := Some vd\<rparr>, w''))))
      else if val_split_mode self \<noteq> ValSplitMode_NONE then
        (Some (ValueError ''Unknown validation split mode''), self, w)
      else (None, self, w))"

text \<open>
  The property \<open>is_setup\<close> (lines 171--182): one of the assigned data attributes is
  set up.
\<close>

definition is_setup :: "('d, 'r, 'w) dataset_ops \<Rightarrow> ('d, 'r) AnomalibDataModule \<Rightarrow> bool" where
  "is_setup ops self =
     list_ex (\<lambda>data. case data of None \<Rightarrow> False | Some d \<Rightarrow> dataset_is_setup ops d)
       [train_data self, val_data self, test_data self]"

text \<open>
  \<open>_setup\<close> (lines 106--125), here \<open>private_setup\<close>: the two datasets are set up in
  place, then the test split and the validation split are created.
\<close>

definition private_setup ::
  "('d, 'r, 'w) dataset_ops \<Rightarrow> ('d, 'r) AnomalibDataModule \<Rightarrow> 'w \<Rightarrow>
   error option \<times> ('d, 'r) AnomalibDataModule \<times> 'w" where
  "private_setup ops self w =
     (case train_data self of
        None \<Rightarrow> (Some AttributeError, self, w)
      | Some tr \<Rightarrow>
     (case test_data self of
        None \<Rightarrow> (Some AttributeError, self, w)
      | Some td \<Rightarrow>
     (case dataset_setup ops tr w of
        (Inl x, w1) \<Rightarrow> (Some (Raised x), self, w1)
      | (Inr tr', w1) \<Rightarrow>
     (case dataset_setup ops td w1 of
        (Inl x, w2) \<Rightarrow> (Some (Raised x), self\<lparr>train_data := Some tr'\<rparr>, w2)
      | (Inr td', w2) \<Rightarrow>
     (case create_test_split ops (self\<lparr>train_data := Some tr', test_data := Some td'\<rparr>) w2 of
        (Some e, self3, w3) \<Rightarrow> (Some e, self3, w3)
      | (None, self3, w3) \<Rightarrow> create_val_split ops self3 w3)))))"

text \<open>\<open>setup\<close> (lines 95--104), here \<open>public_setup\<close>.\<close>

definition public_setup ::
  "('d, 'r, 'w) dataset_ops \<Rightarrow> ('d, 'r) AnomalibDataModule \<Rightarrow> 'w \<Rightarrow>
   error option \<times> ('d, 'r) AnomalibDataModule \<times> 'w" where
  "public_setup ops self w =
     (case (if \<not> is_setup ops self then private_setup ops self w else (None, self, w)) of
        (Some e, self', w') \<Rightarrow> (Some e, self', w')
      | (None, self', w') \<Rightarrow>
          if is_setup ops self' then (None, self', w') else (Some AssertionError, self', w'))"



subsection \<open>A concrete instance\<close>

text \<open>
  Datasets for the examples: whether the dataset is set up, and the label index of each
  sample (0 normal, 1 anomalous). The ratio is the number of samples held out, and the
  ambient state counts the random draws made so far.
\<close>

definition example_ops :: "(bool \<times> nat list, nat, nat) dataset_ops" where
  "example_ops =
     \<lparr>dataset_is_setup = fst,
      dataset_setup = (\<lambda>d w. (Inr (True, snd d), w)),
      has_normal = (\<lambda>d. 0 \<in> set (snd d)),
      split_by_label =
        (\<lambda>d w. (Inr ((fst d, filter (\<lambda>l. l = 0) (snd d)), (fst d, filter (\<lambda>l. l \<noteq> 0) (snd d))), w)),
      random_split =
        (\<lambda>d r label_aware s w. (Inr ((fst d, drop r (snd d)), (fst d, take r (snd d))), Suc w)),
      from_dataset = (\<lambda>d w. (Inr (fst d, map (\<lambda>l. 1) (snd d)), Suc w)),
      dataset_add = (\<lambda>d n w. (Inr (fst d, snd d @ snd n), w))\<rparr>"

definition example_module ::
  "TestSplitMode \<Rightarrow> ValSplitMode \<Rightarrow> (bool \<times> nat list, nat) AnomalibDataModule" where
  "example_module tm vm =
     \<lparr>train_batch_size = 32, eval_batch_size = 32, num_workers = 8,
      test_split_mode = tm, test_split_ratio = Some 1,
      val_split_mode = vm, val_split_ratio = 1, seed = None,
      train_data = Some (False, [0, 0, 0]), val_data = None,
      test_data = Some (False, [0, 1, 1])\<rparr>"

section \<open>The folder dataset with depth maps (data/depth/folder\_3d.py)\<close>

text \<open>
  The enums the function names: the directory types, which are the labels of the rows,
  the label indices \<open>LabelName.NORMAL\<close> (0) and \<open>LabelName.ABNORMAL\<close> (1), and the
  members of \<open>Split\<close> it assigns. A cell of a column is a value or missing (\<open>NA\<close>:
  pandas' \<open>NaN\<close>, also what a column reads before it is created).
\<close>

datatype DirType =
  NORMAL | ABNORMAL | NORMAL_TEST | NORMAL_DEPTH | ABNORMAL_DEPTH | NORMAL_TEST_DEPTH | MASK

datatype LabelName = LabelName_NORMAL | LabelName_ABNORMAL

datatype Split = TRAIN | TEST

datatype 'a cell = NA | Val 'a

text \<open>A row of the samples table, and the table: the rows in order, each with its index label.\<close>

record sample =
  image_path :: string
  label :: DirType
  label_index :: "LabelName cell"
  depth_path :: "string cell"
  mask_path :: "string cell"
  split :: "Split cell"

type_synonym DataFrame = "(nat \<times> sample) list"

text \<open>The arguments of \<open>make_folder3d_dataset\<close>. A \<open>str | Path\<close> is a string.\<close>

record folder3d_args =
  normal_dir :: string
  root :: "string option"
  abnormal_dir :: "string option"
  normal_test_dir :: "string option"
  mask_dir :: "string option"
  normal_depth_dir :: "string option"
  abnormal_depth_dir :: "string option"
  normal_test_depth_dir :: "string option"
  split_arg :: "string option"
  extensions :: "string list option"

text \<open>
  What the function takes from outside the file:
  \<^item> \<open>validate_and_resolve_path\<close> and \<open>_prepare_files_labels\<close> of
    anomalib.data.utils.path, which may raise;
  \<^item> the file system: \<open>Path.is_dir\<close>, \<open>Path.exists\<close>;
  \<^item> \<open>Path.stem\<close> and the order of paths that \<open>sort_values\<close> sorts by;
  \<^item> the string value of a \<open>Split\<close> member (\<open>Split\<close> is a string enum, so a member
    equals its value);
  \<^item> two corners of pandas that its versions treat differently: what
    \<open>.loc[mask, column] = values\<close> does when the number of values is not the number of
    selected rows (it raises, or yields the values it then stores), given that number and
    the values; and the truth value of \<open>.apply(f, axis=1).all()\<close> on a selection with no
    row, which may raise too.
\<close>

record env =
  validate_and_resolve_path :: "string \<Rightarrow> string option \<Rightarrow> exn + string"
  prepare_files_labels :: "string \<Rightarrow> DirType \<Rightarrow> string list option \<Rightarrow> exn + string list \<times> DirType list"
  is_dir :: "string \<Rightarrow> bool"
  path_exists :: "string \<Rightarrow> bool"
  stem :: "string \<Rightarrow> string"
  path_le :: "string \<Rightarrow> string \<Rightarrow> bool"
  Split_value :: "Split \<Rightarrow> string"
  setitem_mismatch :: "nat \<Rightarrow> string list \<Rightarrow> exn + string list"
  apply_all_empty :: "exn + bool"

subsection \<open>Table operations\<close>

text \<open>\<open>samples.loc[mask, column] = value\<close> with one value for all selected rows.\<close>

definition loc_set :: "(sample \<Rightarrow> bool) \<Rightarrow> (sample \<Rightarrow> sample) \<Rightarrow> DataFrame \<Rightarrow> DataFrame" where
  "loc_set sel f df = map (\<lambda>(i, r). (i, if sel r then f r else r)) df"

text \<open>
  \<open>samples.loc[mask, column] = values\<close> with an array: the selected rows take the
  values in order.
\<close>

fun assign_values ::
  "(sample \<Rightarrow> bool) \<Rightarrow> (string \<Rightarrow> sample \<Rightarrow> sample) \<Rightarrow> DataFrame \<Rightarrow> string list \<Rightarrow> DataFrame" where
  "assign_values sel f [] vs = []"
| "assign_values sel f ((i, r) # df) vs =
     (if sel r then
        (case vs of
           [] \<Rightarrow> (i, r) # assign_values sel f df []
         | v # vs' \<Rightarrow> (i, f v r) # assign_values sel f df vs')
      else (i, r) # assign_values sel f df vs)"

definition loc_set_values ::
  "env \<Rightarrow> (sample \<Rightarrow> bool) \<Rightarrow> (string \<Rightarrow> sample \<Rightarrow> sample) \<Rightarrow> DataFrame \<Rightarrow> string list \<Rightarrow>
   error + DataFrame" where
  "loc_set_values e sel f df vs =
     (let n = length (filter (\<lambda>(i, r). sel r) df) in
      if n = length vs then Inr (assign_values sel f df vs)
      else bind (call (setitem_mismatch e n vs)) (\<lambda>vs'. Inr (assign_values sel f df vs')))"

text \<open>\<open>samples.loc[samples.label == dir_type].image_path.to_numpy()\<close>\<close>

definition image_paths_of :: "DirType \<Rightarrow> DataFrame \<Rightarrow> string list" where
  "image_paths_of dir_type df = map (\<lambda>(i, r). image_path r) (filter (\<lambda>(i, r). label r = dir_type) df)"

text \<open>
  \<open>sort_values(by="image_path", ignore_index=True)\<close>: an insertion sort by the order
  of paths, which keeps rows with equal paths in their order (pandas does not promise an
  order for them), and fresh index labels \<open>0, 1, ...\<close>
\<close>

fun insert_row :: "(string \<Rightarrow> string \<Rightarrow> bool) \<Rightarrow> sample \<Rightarrow> sample list \<Rightarrow> sample list" where
  "insert_row le r [] = [r]"
| "insert_row le r (x # xs) =
     (if le (image_path r) (image_path x) then r # x # xs else x # insert_row le r xs)"

definition reset_index :: "sample list \<Rightarrow> DataFrame" where
  "reset_index rs = zip [0..<length rs] rs"

definition sort_values :: "(string \<Rightarrow> string \<Rightarrow> bool) \<Rightarrow> sample list \<Rightarrow> DataFrame" where
  "sort_values le rs = reset_index (foldr (insert_row le) rs [])"

text \<open>\<open>a in b\<close> on strings: \<open>a\<close> occurs in \<open>b\<close> as a contiguous piece.\<close>

fun starts_with :: "string \<Rightarrow> string \<Rightarrow> bool" where
  "starts_with [] ys = True"
| "starts_with (x # xs) [] = False"
| "starts_with (x # xs) (y # ys) = (x = y \<and> starts_with xs ys)"

fun contains :: "string \<Rightarrow> string \<Rightarrow> bool" where
  "contains xs [] = (xs = [])"
| "contains xs (y # ys) = (starts_with xs (y # ys) \<or> contains xs ys)"

subsection \<open>\<open>make_folder3d_dataset\<close>\<close>

text \<open>
  Lines 71--77. An optional directory is resolved when it is given and not the empty
  string (\<open>if abnormal_dir\<close>), and is \<open>None\<close> otherwise. The result holds the resolved
  paths under the names of the arguments, as the function rebinds them.
\<close>

definition resolve_optional :: "env \<Rightarrow> string option \<Rightarrow> string option \<Rightarrow> error + string option" where
  "resolve_optional e dir rt =
     (case dir of
        None \<Rightarrow> Inr None
      | Some p \<Rightarrow>
          if p = [] then Inr None
          else bind (call (validate_and_resolve_path e p rt)) (\<lambda>q. Inr (Some q)))"

definition resolve_dirs :: "env \<Rightarrow> folder3d_args \<Rightarrow> error + folder3d_args" where
  "resolve_dirs e args =
     bind (call (validate_and_resolve_path e (normal_dir args) (root args))) (\<lambda>d1.
     bind (resolve_optional e (abnormal_dir args) (root args)) (\<lambda>d2.
     bind (resolve_optional e (normal_test_dir args) (root args)) (\<lambda>d3.
     bind (resolve_optional e (mask_dir args) (root args)) (\<lambda>d4.
     bind (resolve_optional e (normal_depth_dir args) (root args)) (\<lambda>d5.
     bind (resolve_optional e (abnormal_depth_dir args) (root args)) (\<lambda>d6.
     bind (resolve_optional e (normal_test_depth_dir args) (root args)) (\<lambda>d7.
       Inr (args\<lparr>normal_dir := d1, abnormal_dir := d2, normal_test_dir := d3, mask_dir := d4,
                 normal_depth_dir := d5, abnormal_depth_dir := d6,
                 normal_test_depth_dir := d7\<rparr>))))))))"

text \<open>Lines 83--101: the dictionary \<open>dirs\<close> in insertion order (a resolved path is never false).\<close>

definition dir_entry :: "DirType \<Rightarrow> string option \<Rightarrow> (DirType \<times> string) list" where
  "dir_entry dir_type dir = (case dir of None \<Rightarrow> [] | Some p \<Rightarrow> [(dir_type, p)])"

definition dirs_of :: "folder3d_args \<Rightarrow> (DirType \<times> string) list" where
  "dirs_of d =
     [(NORMAL, normal_dir d)] @
     dir_entry ABNORMAL (abnormal_dir d) @
     dir_entry NORMAL_TEST (normal_test_dir d) @
     dir_entry NORMAL_DEPTH (normal_depth_dir d) @
     dir_entry ABNORMAL_DEPTH (abnormal_depth_dir d) @
     dir_entry NORMAL_TEST_DEPTH (normal_test_depth_dir d) @
     dir_entry MASK (mask_dir d)"

text \<open>Lines 103--106: the loop over \<open>dirs\<close>, with the lists \<open>filenames\<close> and \<open>labels\<close>.\<close>

fun collect_files ::
  "env \<Rightarrow> string list option \<Rightarrow> (DirType \<times> string) list \<Rightarrow> string list \<Rightarrow> DirType list \<Rightarrow>
   error + string list \<times> DirType list" where
  "collect_files e exts [] filenames labels = Inr (filenames, labels)"
| "collect_files e exts ((dir_type, path) # ds) filenames labels =
     bind (call (prepare_files_labels e path dir_type exts)) (\<lambda>(filename, lbl).
       collect_files e exts ds (filenames @ filename) (labels @ lbl))"

text \<open>
  Lines 108--117: the table of the files found, sorted, with the label index. pandas
  refuses columns of different lengths.
\<close>

definition new_sample :: "string \<times> DirType \<Rightarrow> sample" where
  "new_sample fl =
     \<lparr>image_path = fst fl, label = snd fl, label_index = NA, depth_path = NA, mask_path = NA,
      split = NA\<rparr>"

definition labelled_samples :: "env \<Rightarrow> string list \<Rightarrow> DirType list \<Rightarrow> error + DataFrame" where
  "labelled_samples e filenames labels =
     (if length filenames \<noteq> length labels then Inl (Raised ''ValueError'')
      else
        Inr (loc_set (\<lambda>r. label r = ABNORMAL) (\<lambda>r. r\<lparr>label_index := Val LabelName_ABNORMAL\<rparr>)
            (loc_set (\<lambda>r. label r = NORMAL \<or> label r = NORMAL_TEST)
                     (\<lambda>r. r\<lparr>label_index := Val LabelName_NORMAL\<rparr>)
            (sort_values (path_le e) (map new_sample (zip filenames labels))))))"

text \<open>
  Lines 120--131: the depth paths of the normal, abnormal and (with a normal test
  directory) normal test rows are the image paths of the rows of the matching depth
  directory.
\<close>

definition set_depth_path :: "string \<Rightarrow> sample \<Rightarrow> sample" where
  "set_depth_path v r = r\<lparr>depth_path := Val v\<rparr>"

definition assign_depth_paths :: "env \<Rightarrow> folder3d_args \<Rightarrow> DataFrame \<Rightarrow> error + DataFrame" where
  "assign_depth_paths e d df =
     bind (loc_set_values e (\<lambda>r. label r = NORMAL) set_depth_path df
             (image_paths_of NORMAL_DEPTH df)) (\<lambda>df1.
     bind (loc_set_values e (\<lambda>r. label r = ABNORMAL) set_depth_path df1
             (image_paths_of ABNORMAL_DEPTH df1)) (\<lambda>df2.
       if normal_test_dir d \<noteq> None then
         loc_set_values e (\<lambda>r. label r = NORMAL_TEST) set_depth_path df2
           (image_paths_of NORMAL_TEST_DEPTH df2)
       else Inr df2))"

text \<open>
  Lines 134--140: for every row with label index \<open>ABNORMAL\<close> the stem of the image path
  occurs in the stem of the depth path. \<open>Path\<close> of a missing depth path is a
  \<open>TypeError\<close>; the rows are all visited before the results are combined.
\<close>

fun stems_match :: "env \<Rightarrow> sample list \<Rightarrow> error + bool list" where
  "stems_match e [] = Inr []"
| "stems_match e (r # rs) =
     (case depth_path r of
        NA \<Rightarrow> Inl TypeError
      | Val p \<Rightarrow>
          bind (stems_match e rs) (\<lambda>bs. Inr (contains (stem e (image_path r)) (stem e p) # bs)))"

definition assert_stems_match :: "env \<Rightarrow> DataFrame \<Rightarrow> error + DataFrame" where
  "assert_stems_match e df =
     (let abnormal = map snd (filter (\<lambda>(i, r). label_index r = Val LabelName_ABNORMAL) df) in
      bind (if abnormal = [] then call (apply_all_empty e)
            else bind (stems_match e abnormal) (\<lambda>bs. Inr (list_all (\<lambda>b. b) bs))) (\<lambda>ok.
        if ok then Inr df else Inl AssertionError))"

text \<open>Lines 142--146: every depth path that is not missing exists; then the column becomes strings.\<close>

definition depth_path_ok :: "env \<Rightarrow> sample \<Rightarrow> bool" where
  "depth_path_ok e r = (case depth_path r of NA \<Rightarrow> True | Val p \<Rightarrow> path_exists e p)"

definition assert_depth_paths_exist :: "env \<Rightarrow> DataFrame \<Rightarrow> error + DataFrame" where
  "assert_depth_paths_exist e df =
     (if list_all (\<lambda>(i, r). depth_path_ok e r) df then
        Inr (map (\<lambda>(i, r). (i, case depth_path r of NA \<Rightarrow> r\<lparr>depth_path := Val ''nan''\<rparr> | Val p \<Rightarrow> r)) df)
      else Inl AssertionError)"

definition with_depth_paths :: "env \<Rightarrow> folder3d_args \<Rightarrow> DataFrame \<Rightarrow> error + DataFrame" where
  "with_depth_paths e d df =
     (if normal_depth_dir d \<noteq> None then
        bind (assign_depth_paths e d df) (\<lambda>df3.
        bind (assert_stems_match e df3) (\<lambda>df4.
          assert_depth_paths_exist e df4))
      else Inr df)"

text \<open>
  Lines 149--161: with a mask directory and an abnormal directory, the mask paths of the
  abnormal rows are the image paths of the mask rows, the others the empty string, and
  every mask path that is not empty exists. Otherwise every mask path is the empty string.
\<close>

definition set_mask_path :: "string \<Rightarrow> sample \<Rightarrow> sample" where
  "set_mask_path v r = r\<lparr>mask_path := Val v\<rparr>"

definition fillna_mask_path :: "sample \<Rightarrow> sample" where
  "fillna_mask_path r = (case mask_path r of NA \<Rightarrow> r\<lparr>mask_path := Val ''''\<rparr> | Val p \<Rightarrow> r)"

definition mask_path_ok :: "env \<Rightarrow> sample \<Rightarrow> bool" where
  "mask_path_ok e r = (case mask_path r of NA \<Rightarrow> False | Val p \<Rightarrow> p = '''' \<or> path_exists e p)"

definition with_mask_paths :: "env \<Rightarrow> folder3d_args \<Rightarrow> DataFrame \<Rightarrow> error + DataFrame" where
  "with_mask_paths e d df =
     (if mask_dir d \<noteq> None \<and> abnormal_dir d \<noteq> None then
        bind (loc_set_values e (\<lambda>r. label r = ABNORMAL) set_mask_path df (image_paths_of MASK df))
          (\<lambda>df1.
            let df2 = map (\<lambda>(i, r). (i, fillna_mask_path r)) df1 in
            if list_all (\<lambda>(i, r). mask_path_ok e r) df2 then Inr df2 else Inl AssertionError)
      else Inr (map (\<lambda>(i, r). (i, r\<lparr>mask_path := Val ''''\<rparr>)) df))"

text \<open>
  Lines 164--176: only the rows of the three image directories stay, and get their split.
\<close>

definition is_image_row :: "sample \<Rightarrow> bool" where
  "is_image_row r \<longleftrightarrow> label r = NORMAL \<or> label r = ABNORMAL \<or> label r = NORMAL_TEST"

definition assign_split :: "DataFrame \<Rightarrow> DataFrame" where
  "assign_split df =
     loc_set (\<lambda>r. label r = ABNORMAL \<or> label r = NORMAL_TEST) (\<lambda>r. r\<lparr>split := Val TEST\<rparr>)
       (loc_set (\<lambda>r. label r = NORMAL) (\<lambda>r. r\<lparr>split := Val TRAIN\<rparr>)
          (filter (\<lambda>(i, r). is_image_row r) df))"

text \<open>
  Lines 179--181: \<open>if split\<close> holds for an argument that is neither \<open>None\<close> nor the
  empty string; then the rows whose split equals it stay and are renumbered.
\<close>

definition split_equals :: "env \<Rightarrow> string \<Rightarrow> sample \<Rightarrow> bool" where
  "split_equals e s r = (case split r of NA \<Rightarrow> False | Val m \<Rightarrow> Split_value e m = s)"

definition select_split :: "env \<Rightarrow> string option \<Rightarrow> DataFrame \<Rightarrow> DataFrame" where
  "select_split e sp df =
     (case sp of
        None \<Rightarrow> df
      | Some s \<Rightarrow>
          if s = [] then df
          else reset_index (filter (split_equals e s) (map snd df)))"

text \<open>Lines 71--117: the resolved directories and the sorted table with its label index.\<close>

definition samples_with_label_index :: "env \<Rightarrow> folder3d_args \<Rightarrow> error + folder3d_args \<times> DataFrame" where
  "samples_with_label_index e args =
     bind (resolve_dirs e args) (\<lambda>d.
       if \<not> is_dir e (normal_dir d) then Inl AssertionError
       else
         bind (collect_files e (extensions args) (dirs_of d) [] []) (\<lambda>(filenames, labels).
         bind (labelled_samples e filenames labels) (\<lambda>samples.
           Inr (d, samples))))"

definition make_folder3d_dataset :: "env \<Rightarrow> folder3d_args \<Rightarrow> error + DataFrame" where
  "make_folder3d_dataset e args =
     bind (samples_with_label_index e args) (\<lambda>(d, samples).
     bind (with_depth_paths e d samples) (\<lambda>samples.
     bind (with_mask_paths e d samples) (\<lambda>samples.
       Inr (select_split e (split_arg args) (assign_split samples)))))"


subsection \<open>A concrete file system\<close>

text \<open>
  The directories of the examples and the files in each. A path is valid when it is one
  of these directories or files; paths are ordered as strings; the stem of a path is its
  last component without its last suffix; pandas raises in both corners.
\<close>

definition example_files :: "(string \<times> string list) list" where
  "example_files =
     [(''normal'', [''normal/a.png'']),
      (''abnormal'', [''abnormal/b.png'']),
      (''normal_depth'', [''normal_depth/a.tiff'']),
      (''abnormal_depth'', [''abnormal_depth/b.tiff'']),
      (''mask'', [''mask/b.png''])]"

definition example_stem :: "string \<Rightarrow> string" where
  "example_stem p =
     (let name = rev (takeWhile (\<lambda>c. c \<noteq> CHR ''/'') (rev p)) in
      if CHR ''.'' \<in> set name then rev (tl (dropWhile (\<lambda>c. c \<noteq> CHR ''.'') (rev name))) else name)"

definition example_env :: env where
  "example_env =
     \<lparr>validate_and_resolve_path =
        (\<lambda>p rt. if p \<in> set (map fst example_files) \<union> set (concat (map snd example_files))
                 then Inr p else Inl ''FileNotFoundError''),
      prepare_files_labels =
        (\<lambda>p dir_type exts.
           case map_of example_files p of
             None \<Rightarrow> Inl ''RuntimeError''
           | Some fs \<Rightarrow> Inr (fs, replicate (length fs) dir_type)),
      is_dir = (\<lambda>p. p \<in> set (map fst example_files)),
      path_exists = (\<lambda>p. p \<in> set (map fst example_files) \<union> set (concat (map snd example_files))),
      stem = example_stem,
      path_le = (\<lambda>p q. p \<le> q),
      Split_value = (\<lambda>m. case m of TRAIN \<Rightarrow> ''train'' | TEST \<Rightarrow> ''test''),
      setitem_mismatch = (\<lambda>n vs. Inl ''ValueError''),
      apply_all_empty = Inl ''ValueError''\<rparr>"

definition example_args :: folder3d_args where
  "example_args =
     \<lparr>normal_dir = ''normal'', root = None, abnormal_dir = Some ''abnormal'',
      normal_test_dir = None, mask_dir = Some ''mask'', normal_depth_dir = Some ''normal_depth'',
      abnormal_depth_dir = Some ''abnormal_depth'', normal_test_depth_dir = None,
      split_arg = None, extensions = None\<rparr>"

definition example_normal_row :: sample where
  "example_normal_row =
     \<lparr>image_path = ''normal/a.png'', label = NORMAL, label_index = Val LabelName_NORMAL,
      depth_path = Val ''normal_depth/a.tiff'', mask_path = Val '''', split = Val TRAIN\<rparr>"

definition example_abnormal_row :: sample where
  "example_abnormal_row =
     \<lparr>image_path = ''abnormal/b.png'', label = ABNORMAL, label_index = Val LabelName_ABNORMAL,
      depth_path = Val ''abnormal_depth/b.tiff'', mask_path = Val ''mask/b.png'',
      split = Val TEST\<rparr>"





section \<open>Batch collation (\<open>collate_fn\<close>, data/base/datamodule.py)\<close>

text \<open>
  The function mutates the dictionaries of its batch, and the same dictionary object can
  stand in the batch twice, so dictionaries live in a store: an element of the batch is a
  reference to a dictionary or another value. A dictionary is an association list, in the
  order of its keys, and its values are of type \<open>'a\<close>.
\<close>

datatype 'a elem = Dict nat | Other 'a

type_synonym 'a store = "nat \<rightharpoonup> (string \<times> 'a) list"

text \<open>
  An entry of the returned dictionary is the list of the boxes or a collated value of
  type \<open>'c\<close>; the function returns a dictionary, or what \<open>default_collate\<close> made of
  the batch.
\<close>

datatype ('a, 'c) entry = Boxes "'a list" | Collated 'c

datatype ('a, 'c) collated_batch = OutDict "(string \<times> ('a, 'c) entry) list" | Out 'c

text \<open>\<open>isinstance(elem, dict)\<close>, with the entries of the dictionary.\<close>

definition dict_of :: "'a store \<Rightarrow> 'a elem \<Rightarrow> (string \<times> 'a) list option" where
  "dict_of h item = (case item of Dict a \<Rightarrow> h a | Other v \<Rightarrow> None)"

text \<open>
  \<open>item.pop("boxes")\<close>: the value, and the store where the dictionary has lost the key.
  A value that is not a dictionary has no such method.
\<close>

definition pop_boxes :: "'a store \<Rightarrow> 'a elem \<Rightarrow> error + 'a \<times> 'a store" where
  "pop_boxes h item =
     (case item of
        Other v \<Rightarrow> Inl AttributeError
      | Dict a \<Rightarrow>
          (case h a of
             None \<Rightarrow> Inl AttributeError
           | Some kvs \<Rightarrow>
               (case map_of kvs ''boxes'' of
                  None \<Rightarrow> Inl (KeyError ''boxes'')
                | Some b \<Rightarrow> Inr (b, h(a \<mapsto> filter (\<lambda>(k, v). k \<noteq> ''boxes'') kvs)))))"

text \<open>
  \<open>[item.pop("boxes") for item in batch]\<close>: the store is returned as the
  comprehension leaves it, also when an item raises.
\<close>

fun pop_all :: "'a store \<Rightarrow> 'a elem list \<Rightarrow> (error + 'a list) \<times> 'a store" where
  "pop_all h [] = (Inr [], h)"
| "pop_all h (item # items) =
     (case pop_boxes h item of
        Inl e \<Rightarrow> (Inl e, h)
      | Inr (b, h') \<Rightarrow>
          (case pop_all h' items of
             (Inl e, h'') \<Rightarrow> (Inl e, h'')
           | (Inr bs, h'') \<Rightarrow> (Inr (b # bs), h'')))"

text \<open>\<open>item[key]\<close> and \<open>[item[key] for item in batch]\<close>\<close>

definition item_get :: "'a store \<Rightarrow> string \<Rightarrow> 'a elem \<Rightarrow> error + 'a" where
  "item_get h key item =
     (case dict_of h item of
        None \<Rightarrow> Inl TypeError
      | Some kvs \<Rightarrow> (case map_of kvs key of None \<Rightarrow> Inl (KeyError key) | Some v \<Rightarrow> Inr v))"

fun values_of :: "'a store \<Rightarrow> string \<Rightarrow> 'a elem list \<Rightarrow> error + 'a list" where
  "values_of h key [] = Inr []"
| "values_of h key (item # items) =
     bind (item_get h key item) (\<lambda>v. bind (values_of h key items) (\<lambda>vs. Inr (v # vs)))"

text \<open>
  \<open>{key: default_collate([item[key] for item in batch]) for key in elem}\<close>, over the
  keys of \<open>elem\<close> in order. \<open>default_collate\<close> (torch) is a parameter.
\<close>

fun collate_keys ::
  "('a store \<Rightarrow> 'a elem list \<Rightarrow> exn + 'c) \<Rightarrow> 'a store \<Rightarrow> 'a elem list \<Rightarrow> string list \<Rightarrow>
   error + (string \<times> ('a, 'c) entry) list" where
  "collate_keys default_collate h batch [] = Inr []"
| "collate_keys default_collate h batch (key # keys) =
     bind (values_of h key batch) (\<lambda>vs.
     bind (call (default_collate h (map Other vs))) (\<lambda>c.
     bind (collate_keys default_collate h batch keys) (\<lambda>rest.
       Inr ((key, Collated c) # rest))))"

text \<open>
  \<open>collate_fn\<close> (lines 26--46). The keys of \<open>elem\<close> are read after the boxes are
  popped, from the store as the pops left it.
\<close>

definition collate_fn ::
  "('a store \<Rightarrow> 'a elem list \<Rightarrow> exn + 'c) \<Rightarrow> 'a store \<Rightarrow> 'a elem list \<Rightarrow>
   (error + ('a, 'c) collated_batch) \<times> 'a store" where
  "collate_fn default_collate h batch =
     (case batch of
        [] \<Rightarrow> (Inl IndexError, h)
      | elem # _ \<Rightarrow>
          (case dict_of h elem of
             Some kvs \<Rightarrow>
               if ''boxes'' \<in> set (map fst kvs) then
                 (case pop_all h batch of
                    (Inl e, h') \<Rightarrow> (Inl e, h')
                  | (Inr boxes, h') \<Rightarrow>
                      (bind (collate_keys default_collate h' batch
                               (case dict_of h' elem of None \<Rightarrow> [] | Some kvs' \<Rightarrow> map fst kvs'))
                         (\<lambda>collated. Inr (OutDict ((''boxes'', Boxes boxes) # collated))),
                       h'))
               else
                 (bind (collate_keys default_collate h batch (map fst kvs))
                    (\<lambda>collated. Inr (OutDict collated)),
                  h)
           | None \<Rightarrow> (bind (call (default_collate h batch)) (\<lambda>c. Inr (Out c)), h)))"

subsection \<open>What the claim says of a call\<close>

text \<open>
  The value an item has under a key, and the store in which the key \<open>boxes\<close> is removed
  from every dictionary of the batch.
\<close>

definition item_value :: "'a store \<Rightarrow> string \<Rightarrow> 'a elem \<Rightarrow> 'a option" where
  "item_value h key item = (case dict_of h item of None \<Rightarrow> None | Some kvs \<Rightarrow> map_of kvs key)"

definition without_boxes :: "'a store \<Rightarrow> 'a elem list \<Rightarrow> 'a store" where
  "without_boxes h batch =
     (\<lambda>a. if Dict a \<in> set batch then map_option (filter (\<lambda>(k, v). k \<noteq> ''boxes'')) (h a) else h a)"

subsection \<open>A concrete batch\<close>

text \<open>
  Two samples with an image, a label and boxes, and a third dictionary without boxes.
  \<open>default_collate\<close> sums the numbers it is given.
\<close>

definition example_store :: "nat store" where
  "example_store =
     [0 \<mapsto> [(''image'', 10), (''boxes'', 7), (''label'', 1)],
      1 \<mapsto> [(''image'', 20), (''boxes'', 8), (''label'', 0)],
      2 \<mapsto> [(''image'', 30), (''label'', 0)]]"

definition example_collate :: "nat store \<Rightarrow> nat elem list \<Rightarrow> exn + nat" where
  "example_collate h items =
     (if list_all (\<lambda>item. case item of Other v \<Rightarrow> True | Dict a \<Rightarrow> False) items
      then Inr (sum_list (map (\<lambda>item. case item of Other v \<Rightarrow> v | Dict a \<Rightarrow> 0) items))
      else Inl ''TypeError'')"


section \<open>Properties of the inferencer\<close>

lemma bind_Inr [simp]: "bind (Inr x) f = f x"
  by (simp add: bind_def)

lemma bind_Inl [simp]: "bind (Inl e) f = Inl e"
  by (simp add: bind_def)

lemma bind_eq_Inr: "bind m f = Inr y \<longleftrightarrow> (\<exists>x. m = Inr x \<and> f x = Inr y)"
  by (cases m) simp_all

lemma call_eq_Inr: "call r = Inr y \<longleftrightarrow> r = Inr y"
  by (cases r) (simp_all add: call_def)

lemma getitem_eq_Inr: "getitem d k = Inr v \<longleftrightarrow> d k = Some v"
  by (simp add: getitem_def split: option.splits)



text \<open>
  C2. \<open>_normalize\<close> rescales exactly when both \<open>min\<close> and \<open>max\<close> are keys of the
  metadata. Then the returned score is \<open>float\<close> of the score normalised with
  \<open>image_threshold\<close>, and the anomaly map, when there is one, is normalised with
  \<open>pixel_threshold\<close>. When one of the two keys is absent, the anomaly map is returned
  as it came and the score is \<open>float\<close> of the score as it came.
\<close>

theorem normalize_cases:
  "normalize normalize_min_max float pred_scores metadata anomaly_maps = Inr (maps, score) \<longleftrightarrow>
   (if ''min'' \<in> dom metadata \<and> ''max'' \<in> dom metadata then
      (\<exists>image_threshold min_val max_val s.
         metadata ''image_threshold'' = Some image_threshold \<and>
         metadata ''min'' = Some min_val \<and> metadata ''max'' = Some max_val \<and>
         normalize_min_max pred_scores image_threshold min_val max_val = Inr s \<and>
         float s = Inr score \<and>
         (case anomaly_maps of
            None \<Rightarrow> maps = None
          | Some am \<Rightarrow>
              (\<exists>pixel_threshold am'.
                 metadata ''pixel_threshold'' = Some pixel_threshold \<and>
                 normalize_min_max am pixel_threshold min_val max_val = Inr am' \<and>
                 maps = Some am')))
    else maps = anomaly_maps \<and> float pred_scores = Inr score)"
  by (cases anomaly_maps)
     (auto simp add: normalize_def call_normalize_min_max_def bind_eq_Inr call_eq_Inr
        getitem_eq_Inr)

theorem normalize_cases_witness:
  "normalize example_normalize_min_max (\<lambda>v. Inr (int v)) 9 example_metadata (Some 7) = Inr (Some 2, 2) \<and>
   normalize example_normalize_min_max (\<lambda>v. Inr (int v)) 9 (example_metadata(''max'' := None)) (Some 7)
     = Inr (Some 7, 9)"
proof
  show "normalize example_normalize_min_max (\<lambda>v. Inr (int v)) 9 example_metadata (Some 7)
          = Inr (Some 2, 2)"
    by (rule normalize_cases [THEN iffD2])
       (simp add: example_metadata_def example_normalize_min_max_def)
  show "normalize example_normalize_min_max (\<lambda>v. Inr (int v)) 9 (example_metadata(''max'' := None))
          (Some 7) = Inr (Some 7, 9)"
    by (rule normalize_cases [THEN iffD2])
       (simp add: example_metadata_def example_normalize_min_max_def)
qed


section \<open>Properties of the data module\<close>








text \<open>
  C10. After a call of \<open>setup\<close> that returned, \<open>is_setup\<close> holds, and a further call
  of \<open>setup\<close>, in whatever ambient state, returns at once: it calls no helper (the
  ambient state is the one it started in) and leaves the module, hence the train, the
  validation and the test data, as they were.
\<close>

theorem setup_idempotent:
  assumes "public_setup ops self w = (None, self', w')"
  shows "is_setup ops self' \<and> public_setup ops self' w'' = (None, self', w'')"
proof -
  have s: "is_setup ops self'"
    using assms by (auto simp: public_setup_def split: if_splits prod.splits option.splits)
  then show ?thesis by (simp add: public_setup_def)
qed

theorem setup_idempotent_witness:
  "public_setup example_ops (example_module TestSplitMode_FROM_DIR ValSplitMode_FROM_TEST) 0 =
     (None, (example_module TestSplitMode_FROM_DIR ValSplitMode_FROM_TEST)
        \<lparr>train_data := Some (True, [0, 0, 0]), val_data := Some (True, [1]),
         test_data := Some (True, [1, 0])\<rparr>, 1) \<and>
   public_setup example_ops ((example_module TestSplitMode_FROM_DIR ValSplitMode_FROM_TEST)
        \<lparr>train_data := Some (True, [0, 0, 0]), val_data := Some (True, [1]),
         test_data := Some (True, [1, 0])\<rparr>) 7 =
     (None, (example_module TestSplitMode_FROM_DIR ValSplitMode_FROM_TEST)
        \<lparr>train_data := Some (True, [0, 0, 0]), val_data := Some (True, [1]),
         test_data := Some (True, [1, 0])\<rparr>, 7)"
proof -
  have h: "public_setup example_ops (example_module TestSplitMode_FROM_DIR ValSplitMode_FROM_TEST) 0 =
     (None, (example_module TestSplitMode_FROM_DIR ValSplitMode_FROM_TEST)
        \<lparr>train_data := Some (True, [0, 0, 0]), val_data := Some (True, [1]),
         test_data := Some (True, [1, 0])\<rparr>, 1)"
    by (simp add: public_setup_def is_setup_def private_setup_def create_test_split_def
        create_val_split_def normal_test_data_of_def test_data_of_def example_ops_def
        example_module_def)
  from setup_idempotent [OF h, of 7] h show ?thesis by simp
qed

subsection \<open>Determinism of the splitting\<close>














section \<open>Properties of the folder dataset\<close>

subsection \<open>Row properties kept by the table operations\<close>

lemma ball_rows: "(\<forall>(i, r) \<in> set df. Q r) \<longleftrightarrow> (\<forall>i r. (i, r) \<in> set df \<longrightarrow> Q r)"
  by auto

lemma assign_values_keeps:
  assumes "\<And>v r. Q (f v r) = Q r" and "\<forall>(i, r) \<in> set df. Q r"
  shows "\<forall>(i, r) \<in> set (assign_values sel f df vs). Q r"
  using assms(2)
proof (induction df arbitrary: vs)
  case Nil
  then show ?case by simp
next
  case (Cons a df)
  obtain i r where a: "a = (i, r)" by (cases a)
  with Cons show ?case
    by (cases vs) (auto simp: assms(1))
qed

lemma loc_set_values_keeps:
  assumes "loc_set_values e sel f df vs = Inr df'"
    and "\<And>v r. Q (f v r) = Q r" and "\<forall>(i, r) \<in> set df. Q r"
  shows "\<forall>(i, r) \<in> set df'. Q r"
proof -
  from assms(1) obtain vs' where "df' = assign_values sel f df vs'"
    by (auto simp: loc_set_values_def Let_def bind_eq_Inr split: if_splits)
  with assign_values_keeps [OF assms(2) assms(3)] show ?thesis by simp
qed

lemma loc_set_keeps:
  assumes "\<And>r. Q (f r) = Q r" and "\<forall>(i, r) \<in> set df. Q r"
  shows "\<forall>(i, r) \<in> set (loc_set sel f df). Q r"
  using assms by (fastforce simp: loc_set_def)

lemma assign_depth_paths_keeps:
  assumes "assign_depth_paths e d df = Inr df'"
    and q: "\<And>x r. Q (r\<lparr>depth_path := x\<rparr>) = Q r" and "\<forall>(i, r) \<in> set df. Q r"
  shows "\<forall>(i, r) \<in> set df'. Q r"
proof -
  have f: "\<And>v r. Q (set_depth_path v r) = Q r" by (simp add: set_depth_path_def q)
  from assms(1) obtain df1 df2 where
    1: "loc_set_values e (\<lambda>r. label r = NORMAL) set_depth_path df (image_paths_of NORMAL_DEPTH df) = Inr df1"
    and 2: "loc_set_values e (\<lambda>r. label r = ABNORMAL) set_depth_path df1 (image_paths_of ABNORMAL_DEPTH df1) = Inr df2"
    and 3: "(if normal_test_dir d \<noteq> None then
         loc_set_values e (\<lambda>r. label r = NORMAL_TEST) set_depth_path df2
           (image_paths_of NORMAL_TEST_DEPTH df2)
       else Inr df2) = Inr df'"
    by (auto simp: assign_depth_paths_def bind_eq_Inr)
  have q1: "\<forall>(i, r) \<in> set df1. Q r" by (rule loc_set_values_keeps [OF 1 f assms(3)])
  have q2: "\<forall>(i, r) \<in> set df2. Q r" by (rule loc_set_values_keeps [OF 2 f q1])
  show ?thesis
  proof (cases "normal_test_dir d \<noteq> None")
    case True
    with 3 have "loc_set_values e (\<lambda>r. label r = NORMAL_TEST) set_depth_path df2
           (image_paths_of NORMAL_TEST_DEPTH df2) = Inr df'" by simp
    then show ?thesis by (rule loc_set_values_keeps [OF _ f q2])
  next
    case False
    with 3 q2 show ?thesis by simp
  qed
qed

lemma assert_stems_match_Inr: "assert_stems_match e df = Inr df' \<Longrightarrow> df' = df"
  by (auto simp: assert_stems_match_def Let_def bind_eq_Inr split: if_splits)

lemma assert_depth_paths_exist_keeps:
  assumes "assert_depth_paths_exist e df = Inr df'"
    and q: "\<And>x r. Q (r\<lparr>depth_path := x\<rparr>) = Q r" and "\<forall>(i, r) \<in> set df. Q r"
  shows "\<forall>(i, r) \<in> set df'. Q r"
  using assms(1,3)
  by (fastforce simp: assert_depth_paths_exist_def q split: if_splits cell.splits)

lemma with_depth_paths_keeps:
  assumes "with_depth_paths e d df = Inr df'"
    and q: "\<And>x r. Q (r\<lparr>depth_path := x\<rparr>) = Q r" and "\<forall>(i, r) \<in> set df. Q r"
  shows "\<forall>(i, r) \<in> set df'. Q r"
proof (cases "normal_depth_dir d \<noteq> None")
  case True
  with assms(1) obtain df3 df4 where 1: "assign_depth_paths e d df = Inr df3"
    and 2: "assert_stems_match e df3 = Inr df4" and 3: "assert_depth_paths_exist e df4 = Inr df'"
    by (auto simp: with_depth_paths_def bind_eq_Inr)
  have "\<forall>(i, r) \<in> set df3. Q r" by (rule assign_depth_paths_keeps [OF 1 q assms(3)])
  with assert_stems_match_Inr [OF 2] have "\<forall>(i, r) \<in> set df4. Q r" by simp
  then show ?thesis by (rule assert_depth_paths_exist_keeps [OF 3 q])
next
  case False
  with assms(1,3) show ?thesis by (simp add: with_depth_paths_def)
qed

lemma with_mask_paths_keeps:
  assumes "with_mask_paths e d df = Inr df'"
    and q: "\<And>x r. Q (r\<lparr>mask_path := x\<rparr>) = Q r" and "\<forall>(i, r) \<in> set df. Q r"
  shows "\<forall>(i, r) \<in> set df'. Q r"
proof (cases "mask_dir d \<noteq> None \<and> abnormal_dir d \<noteq> None")
  case True
  have f: "\<And>v r. Q (set_mask_path v r) = Q r" by (simp add: set_mask_path_def q)
  from True assms(1) obtain df1 where
    1: "loc_set_values e (\<lambda>r. label r = ABNORMAL) set_mask_path df (image_paths_of MASK df) = Inr df1"
    and 2: "df' = map (\<lambda>(i, r). (i, fillna_mask_path r)) df1"
    by (auto simp: with_mask_paths_def bind_eq_Inr Let_def split: if_splits)
  have "\<forall>(i, r) \<in> set df1. Q r" by (rule loc_set_values_keeps [OF 1 f assms(3)])
  with 2 show ?thesis by (fastforce simp: fillna_mask_path_def q split: cell.splits)
next
  case False
  with assms(1,3) show ?thesis by (auto simp: with_mask_paths_def q ball_rows)
qed


lemma set_reset_index: "(i, r) \<in> set (reset_index rs) \<Longrightarrow> r \<in> set rs"
  by (auto simp: reset_index_def dest: set_zip_rightD)

lemma select_split_keeps:
  assumes "\<forall>(i, r) \<in> set df. Q r"
  shows "\<forall>(i, r) \<in> set (select_split e sp df). Q r"
proof (cases "select_split e sp df = df")
  case True
  with assms show ?thesis by simp
next
  case False
  then obtain s where "select_split e sp df = reset_index (filter (split_equals e s) (map snd df))"
    by (auto simp: select_split_def split: option.splits if_splits)
  with assms show ?thesis by (auto simp: ball_rows dest!: set_reset_index)
qed

subsection \<open>The steps of a run that returns\<close>

lemma samples_with_label_index_Inr:
  assumes "samples_with_label_index e args = Inr (d, s0)"
  obtains filenames labels where
    "resolve_dirs e args = Inr d" "is_dir e (normal_dir d)"
    "collect_files e (extensions args) (dirs_of d) [] [] = Inr (filenames, labels)"
    "labelled_samples e filenames labels = Inr s0"
  using assms
  by (auto simp: samples_with_label_index_def bind_eq_Inr split: if_splits)

lemma make_folder3d_dataset_Inr:
  assumes "make_folder3d_dataset e args = Inr df"
  obtains d s0 s1 s2 where
    "samples_with_label_index e args = Inr (d, s0)"
    "with_depth_paths e d s0 = Inr s1" "with_mask_paths e d s1 = Inr s2"
    "df = select_split e (split_arg args) (assign_split s2)"
  using assms
  by (auto simp: make_folder3d_dataset_def bind_eq_Inr)

lemma labelled_samples_label_index:
  assumes "labelled_samples e filenames labels = Inr df"
  shows "\<forall>(i, r) \<in> set df.
           (label r = NORMAL \<or> label r = NORMAL_TEST \<longrightarrow> label_index r = Val LabelName_NORMAL) \<and>
           (label r = ABNORMAL \<longrightarrow> label_index r = Val LabelName_ABNORMAL)"
  using assms
  by (auto simp: labelled_samples_def loc_set_def split: if_splits)

text \<open>
  C5. Every row of the table that \<open>make_folder3d_dataset\<close> returns has the label
  \<open>normal\<close>, \<open>abnormal\<close> or \<open>normal_test\<close> (the rows of the depth and mask
  directories are gone), and its label index is \<open>LabelName.NORMAL\<close> when the label is
  \<open>normal\<close> or \<open>normal_test\<close> and \<open>LabelName.ABNORMAL\<close> when it is \<open>abnormal\<close>.
\<close>

theorem folder3d_labels:
  assumes "make_folder3d_dataset e args = Inr df"
  shows "\<forall>(i, r) \<in> set df.
           label r \<in> {NORMAL, ABNORMAL, NORMAL_TEST} \<and>
           (label r = NORMAL \<or> label r = NORMAL_TEST \<longrightarrow> label_index r = Val LabelName_NORMAL) \<and>
           (label r = ABNORMAL \<longrightarrow> label_index r = Val LabelName_ABNORMAL)"
proof -
  let ?Q = "\<lambda>r. (label r = NORMAL \<or> label r = NORMAL_TEST \<longrightarrow> label_index r = Val LabelName_NORMAL) \<and>
           (label r = ABNORMAL \<longrightarrow> label_index r = Val LabelName_ABNORMAL)"
  from assms obtain d s0 s1 s2 where
    l: "samples_with_label_index e args = Inr (d, s0)"
    and s1: "with_depth_paths e d s0 = Inr s1" and s2: "with_mask_paths e d s1 = Inr s2"
    and df: "df = select_split e (split_arg args) (assign_split s2)"
    by (rule make_folder3d_dataset_Inr)
  from l obtain filenames labels where s0: "labelled_samples e filenames labels = Inr s0"
    by (rule samples_with_label_index_Inr)
  have "\<forall>(i, r) \<in> set s0. ?Q r" using s0 by (rule labelled_samples_label_index)
  then have "\<forall>(i, r) \<in> set s1. ?Q r" by (intro with_depth_paths_keeps [OF s1]) simp_all
  then have q2: "\<forall>(i, r) \<in> set s2. ?Q r" by (intro with_mask_paths_keeps [OF s2]) simp_all
  have "\<forall>(i, r) \<in> set (assign_split s2). ?Q r \<and> is_image_row r"
    using q2 by (fastforce simp: assign_split_def loc_set_def is_image_row_def)
  then have "\<forall>(i, r) \<in> set df. ?Q r \<and> is_image_row r"
    unfolding df by (rule select_split_keeps)
  then show ?thesis by (auto simp: is_image_row_def)
qed

theorem folder3d_labels_witness:
  "make_folder3d_dataset example_env example_args =
     Inr [(0, example_abnormal_row), (3, example_normal_row)] \<and>
   label example_abnormal_row = ABNORMAL \<and>
   label_index example_abnormal_row = Val LabelName_ABNORMAL \<and>
   label example_normal_row = NORMAL \<and>
   label_index example_normal_row = Val LabelName_NORMAL"
proof -
  have h: "make_folder3d_dataset example_env example_args =
     Inr [(0, example_abnormal_row), (3, example_normal_row)]"
    by code_simp
  from folder3d_labels [OF h] h show ?thesis
    by (simp add: example_abnormal_row_def example_normal_row_def)
qed

subsection \<open>The split\<close>













subsection \<open>The assertions\<close>








section \<open>Properties of the batch collation\<close>

lemma map_of_without_boxes:
  "key \<noteq> ''boxes'' \<Longrightarrow> map_of (filter (\<lambda>(k, v). k \<noteq> ''boxes'') kvs) key = map_of kvs key"
  by (induction kvs) auto

lemma keys_without_boxes:
  "map fst (filter (\<lambda>(k, v). k \<noteq> ''boxes'') kvs) = filter (\<lambda>k. k \<noteq> ''boxes'') (map fst kvs)"
  by (induction kvs) auto

lemma dict_of_without_boxes:
  "dict_of (without_boxes h batch) item =
     (if item \<in> set batch then map_option (filter (\<lambda>(k, v). k \<noteq> ''boxes'')) (dict_of h item)
      else dict_of h item)"
  by (cases item) (simp_all add: dict_of_def without_boxes_def)

lemma item_value_without_boxes:
  "key \<noteq> ''boxes'' \<Longrightarrow> item_value (without_boxes h batch) key item = item_value h key item"
  by (cases "dict_of h item")
     (simp_all add: item_value_def dict_of_without_boxes map_of_without_boxes)

lemma has_key_value:
  assumes "dict_of h item = Some kvs" and "key \<in> set (map fst kvs)"
  shows "\<exists>v. item_value h key item = Some v"
proof -
  from assms(2) have "map_of kvs key \<noteq> None" by (simp add: map_of_eq_None_iff)
  with assms(1) show ?thesis by (auto simp: item_value_def)
qed

lemma pop_boxes_value:
  assumes "item_value h ''boxes'' item = Some v"
  shows "pop_boxes h item = Inr (v, without_boxes h [item])"
proof (cases item)
  case (Dict a)
  with assms obtain kvs where kvs: "h a = Some kvs" "map_of kvs ''boxes'' = Some v"
    by (auto simp: item_value_def dict_of_def split: option.splits)
  have "h(a \<mapsto> filter (\<lambda>(k, v). k \<noteq> ''boxes'') kvs) = without_boxes h [Dict a]"
    using kvs by (auto simp: without_boxes_def fun_eq_iff)
  with Dict kvs show ?thesis by (simp add: pop_boxes_def)
next
  case (Other x)
  with assms show ?thesis by (simp add: item_value_def dict_of_def)
qed

lemma without_boxes_Cons:
  "without_boxes (without_boxes h [item]) items = without_boxes h (item # items)"
  by (auto simp: without_boxes_def fun_eq_iff option.map_comp comp_def split: option.splits)

lemma item_value_other_item:
  assumes "item' \<noteq> item"
  shows "item_value (without_boxes h [item]) key item' = item_value h key item'"
  using assms by (simp add: item_value_def dict_of_without_boxes)

lemma pop_all_values:
  assumes "distinct batch" and "\<forall>item \<in> set batch. \<exists>v. item_value h ''boxes'' item = Some v"
  shows "pop_all h batch =
           (Inr (map (\<lambda>item. the (item_value h ''boxes'' item)) batch), without_boxes h batch)"
  using assms
proof (induction batch arbitrary: h)
  case Nil
  show ?case by (simp add: without_boxes_def)
next
  case (Cons item items)
  from Cons.prems obtain v where v: "item_value h ''boxes'' item = Some v" by auto
  let ?h = "without_boxes h [item]"
  have other: "item_value ?h ''boxes'' item' = item_value h ''boxes'' item'" if "item' \<in> set items" for item'
    using that Cons.prems(1) by (intro item_value_other_item) auto
  have "pop_all ?h items =
          (Inr (map (\<lambda>item. the (item_value ?h ''boxes'' item)) items), without_boxes ?h items)"
    using Cons.prems by (intro Cons.IH) (auto simp: other)
  then have "pop_all ?h items =
          (Inr (map (\<lambda>item. the (item_value h ''boxes'' item)) items), without_boxes h (item # items))"
    by (simp add: other without_boxes_Cons cong: map_cong)
  with v show ?case by (simp add: pop_boxes_value)
qed

lemma item_get_value:
  "item_value h key item = Some v \<Longrightarrow> item_get h key item = Inr v"
  by (auto simp: item_value_def item_get_def split: option.splits)

lemma values_of_values:
  assumes "\<forall>item \<in> set batch. \<exists>v. item_value h key item = Some v"
  shows "values_of h key batch = Inr (map (\<lambda>item. the (item_value h key item)) batch)"
  using assms by (induction batch) (auto simp: item_get_value)

lemma collate_keys_values:
  assumes "\<forall>key \<in> set keys.
             (\<forall>item \<in> set batch. \<exists>v. item_value h key item = Some v) \<and>
             default_collate h (map (\<lambda>item. Other (the (item_value h key item))) batch) = Inr (c key)"
  shows "collate_keys default_collate h batch keys = Inr (map (\<lambda>key. (key, Collated (c key))) keys)"
  using assms
proof (induction keys)
  case Nil
  show ?case by simp
next
  case (Cons key keys)
  then have v: "values_of h key batch = Inr (map (\<lambda>item. the (item_value h key item)) batch)"
    by (intro values_of_values) simp
  from Cons.prems have
    "default_collate h (map (\<lambda>item. Other (the (item_value h key item))) batch) = Inr (c key)"
    by simp
  with v Cons show ?case by (simp add: call_def comp_def)
qed

text \<open>
  C8, as amended. Take a batch whose first element is a dictionary with the key
  \<open>boxes\<close>, whose elements are dictionaries, no dictionary object twice, each with the
  key \<open>boxes\<close> and every other key of the first, and let \<open>default_collate\<close> return
  on the values of each of those keys. Then \<open>collate_fn\<close> returns a dictionary whose
  entry \<open>boxes\<close> is the list of the items' boxes in batch order and whose other
  entries are, for every other key of the first element in order, \<open>default_collate\<close> of
  the items' values; and it leaves every dictionary of the batch without its key
  \<open>boxes\<close>. For a batch whose first element is not a dictionary, it returns (or raises)
  what \<open>default_collate\<close> of the batch does and changes nothing.
\<close>

theorem collate_fn_boxes:
  "(batch = Dict a # rest \<and> h a = Some kvs \<and> ''boxes'' \<in> set (map fst kvs) \<and> distinct batch \<and>
    (\<forall>item \<in> set batch. \<exists>kvs'. dict_of h item = Some kvs' \<and> set (map fst kvs) \<subseteq> set (map fst kvs')) \<and>
    (\<forall>key \<in> set (map fst kvs). key \<noteq> ''boxes'' \<longrightarrow>
       default_collate (without_boxes h batch)
         (map (\<lambda>item. Other (the (item_value h key item))) batch) = Inr (c key)) \<longrightarrow>
    collate_fn default_collate h batch =
      (Inr (OutDict ((''boxes'', Boxes (map (\<lambda>item. the (item_value h ''boxes'' item)) batch)) #
                     map (\<lambda>key. (key, Collated (c key)))
                       (filter (\<lambda>key. key \<noteq> ''boxes'') (map fst kvs)))),
       without_boxes h batch)) \<and>
   (batch = item # rest \<and> dict_of h item = None \<longrightarrow>
    collate_fn default_collate h batch =
      (case default_collate h batch of Inl x \<Rightarrow> Inl (Raised x) | Inr c \<Rightarrow> Inr (Out c), h))"
proof (intro conjI impI)
  assume a: "batch = Dict a # rest \<and> h a = Some kvs \<and> ''boxes'' \<in> set (map fst kvs) \<and> distinct batch \<and>
    (\<forall>item \<in> set batch. \<exists>kvs'. dict_of h item = Some kvs' \<and> set (map fst kvs) \<subseteq> set (map fst kvs')) \<and>
    (\<forall>key \<in> set (map fst kvs). key \<noteq> ''boxes'' \<longrightarrow>
       default_collate (without_boxes h batch)
         (map (\<lambda>item. Other (the (item_value h key item))) batch) = Inr (c key))"
  let ?h = "without_boxes h batch"
  let ?keys = "filter (\<lambda>key. key \<noteq> ''boxes'') (map fst kvs)"
  have has: "\<exists>v. item_value h key item = Some v" if "item \<in> set batch" "key \<in> set (map fst kvs)" for item key
  proof -
    from a that(1) obtain kvs' where k: "dict_of h item = Some kvs'" "set (map fst kvs) \<subseteq> set (map fst kvs')"
      by blast
    with that(2) have "key \<in> set (map fst kvs')" by blast
    with k(1) show ?thesis by (rule has_key_value)
  qed
  have pop: "pop_all h batch =
      (Inr (map (\<lambda>item. the (item_value h ''boxes'' item)) batch), ?h)"
    using a has by (intro pop_all_values) auto
  have d: "dict_of h (Dict a) = Some kvs" using a by (simp add: dict_of_def)
  have d': "dict_of ?h (Dict a) = Some (filter (\<lambda>(k, v). k \<noteq> ''boxes'') kvs)"
    using a d by (simp add: dict_of_without_boxes)
  have "collate_keys default_collate ?h batch ?keys = Inr (map (\<lambda>key. (key, Collated (c key))) ?keys)"
  proof (rule collate_keys_values, intro ballI conjI)
    fix key item assume "key \<in> set ?keys" "item \<in> set batch"
    then show "\<exists>v. item_value ?h key item = Some v"
      using has by (simp add: item_value_without_boxes)
  next
    fix key assume k: "key \<in> set ?keys"
    then have k1: "key \<in> set (map fst kvs)" and k2: "key \<noteq> ''boxes''" by auto
    have e: "(\<lambda>item. Other (the (item_value ?h key item))) =
        (\<lambda>item. Other (the (item_value h key item)))"
      using k2 by (simp add: item_value_without_boxes)
    from a k1 k2 have
      "default_collate ?h (map (\<lambda>item. Other (the (item_value h key item))) batch) = Inr (c key)"
      by blast
    then show "default_collate ?h (map (\<lambda>item. Other (the (item_value ?h key item))) batch) = Inr (c key)"
      by (simp only: e)
  qed
  with a pop d d' show "collate_fn default_collate h batch =
      (Inr (OutDict ((''boxes'', Boxes (map (\<lambda>item. the (item_value h ''boxes'' item)) batch)) #
                     map (\<lambda>key. (key, Collated (c key))) ?keys)), ?h)"
    by (simp add: collate_fn_def keys_without_boxes)
next
  assume "batch = item # rest \<and> dict_of h item = None"
  then show "collate_fn default_collate h batch =
      (case default_collate h batch of Inl x \<Rightarrow> Inl (Raised x) | Inr c \<Rightarrow> Inr (Out c), h)"
    by (simp add: collate_fn_def call_def bind_def split: sum.splits)
qed

theorem collate_fn_boxes_witness:
  "fst (collate_fn example_collate example_store [Dict 0, Dict 1]) =
     Inr (OutDict [(''boxes'', Boxes [7, 8]), (''image'', Collated 30), (''label'', Collated 1)]) \<and>
   map (snd (collate_fn example_collate example_store [Dict 0, Dict 1])) [0, 1, 2] =
     [Some [(''image'', 10), (''label'', 1)], Some [(''image'', 20), (''label'', 0)],
      Some [(''image'', 30), (''label'', 0)]] \<and>
   collate_fn example_collate example_store [Other 3, Other 4] = (Inr (Out 7), example_store)"
proof -
  let ?kvs = "[(''image'', 10), (''boxes'', 7), (''label'', 1)] :: (string \<times> nat) list"
  let ?c = "\<lambda>key. if key = ''image'' then 30 else (1 :: nat)"
  have h: "[Dict 0, Dict 1] = Dict 0 # [Dict 1 :: nat elem] \<and> example_store 0 = Some ?kvs \<and>
    ''boxes'' \<in> set (map fst ?kvs) \<and> distinct [Dict 0, Dict 1 :: nat elem] \<and>
    (\<forall>item \<in> set [Dict 0, Dict 1].
       \<exists>kvs'. dict_of example_store item = Some kvs' \<and> set (map fst ?kvs) \<subseteq> set (map fst kvs')) \<and>
    (\<forall>key \<in> set (map fst ?kvs). key \<noteq> ''boxes'' \<longrightarrow>
       example_collate (without_boxes example_store [Dict 0, Dict 1])
         (map (\<lambda>item. Other (the (item_value example_store key item))) [Dict 0, Dict 1]) = Inr (?c key))"
    by (simp add: example_store_def dict_of_def item_value_def example_collate_def)
  have o: "[Other 3, Other 4] = Other 3 # [Other 4 :: nat elem] \<and> dict_of example_store (Other 3) = None"
    by (simp add: dict_of_def)
  note r1 = collate_fn_boxes [where default_collate = example_collate and h = example_store
      and batch = "[Dict 0, Dict 1]" and a = 0 and rest = "[Dict 1]" and kvs = "?kvs" and c = "?c",
      THEN conjunct1, rule_format, OF h]
  note r2 = collate_fn_boxes [where default_collate = example_collate and h = example_store
      and batch = "[Other 3, Other 4]" and item = "Other 3" and rest = "[Other 4]",
      THEN conjunct2, rule_format, OF o]
  have c1: "fst (collate_fn example_collate example_store [Dict 0, Dict 1]) =
     Inr (OutDict [(''boxes'', Boxes [7, 8]), (''image'', Collated 30), (''label'', Collated 1)])"
    unfolding r1 by (simp add: example_store_def dict_of_def item_value_def)
  have c2: "map (snd (collate_fn example_collate example_store [Dict 0, Dict 1])) [0, 1, 2] =
     [Some [(''image'', 10), (''label'', 1)], Some [(''image'', 20), (''label'', 0)],
      Some [(''image'', 30), (''label'', 0)]]"
    unfolding r1 by (simp add: example_store_def without_boxes_def)
  have c3: "collate_fn example_collate example_store [Other 3, Other 4] = (Inr (Out 7), example_store)"
    unfolding r2 by (simp add: example_collate_def)
  from c1 c2 c3 show ?thesis by simp
qed

text \<open>
  C8 as stated fails for a batch whose first element is a dictionary with the key
  \<open>boxes\<close> and whose second element is a dictionary without it: the second
  \<open>pop\<close> raises \<open>KeyError\<close>, and no dictionary is returned.
\<close>

theorem collate_fn_boxes_counterexample:
  "dict_of example_store (Dict 0) = Some [(''image'', 10), (''boxes'', 7), (''label'', 1)] \<and>
   fst (collate_fn example_collate example_store [Dict 0, Dict 2]) = Inl (KeyError ''boxes'')"
  by (simp add: collate_fn_def example_store_def dict_of_def pop_boxes_def)

end
